theory Spec2Isabelle
  imports Complex_Main
begin

section \<open>funcsamp2D: sampling error of 2D functions on the unit square\<close>

text \<open>
  The program \<^verbatim>\<open>funcsamp2D.cpp\<close> reads a table of sample sequences from a text file,
  evaluates one of 18 known functions at every sample point, keeps one running sum per
  sequence, and prints the average absolute error of the running estimates for the sample
  counts 4, 8, 12, ...

  Conventions of this embedding.
  \<^item> A C \<^verbatim>\<open>double\<close> is a real number and its arithmetic is exact. Rounding,
    overflow and the special values read from a file are outside the model. The one
    place where the program itself can divide by zero (\<^verbatim>\<open>sumerror / numSequences\<close>)
    is modelled with the IEEE results written out.
  \<^item> A C \<^verbatim>\<open>int\<close> is an \<open>int\<close>; the counters of the program only count upwards from 0
    to a bound that is itself an \<^verbatim>\<open>int\<close>, so none of them wraps.
  \<^item> An access \<^verbatim>\<open>samplePoints[t][s]\<close> outside the declared array is undefined
    behaviour in C; the model stops there with the error \<open>OutOfBounds\<close>.
  \<^item> A loop that may run forever returns an \<open>option\<close>, with \<open>None\<close> for not returning.
\<close>

subsection \<open>Data\<close>

type_synonym double = real

text \<open>The constant of \<^verbatim>\<open>math.h\<close>: \<^verbatim>\<open># define M_PI 3.14159265358979323846\<close>\<close>

definition M_PI :: double where
  "M_PI = 3.14159265358979323846"

definition MAXSAMPLES :: int where
  "MAXSAMPLES = 4096"

definition MAXTABLES :: int where
  "MAXTABLES = 10000"

definition NUMFUNCTIONS :: int where
  "NUMFUNCTIONS = 18"

text \<open>\<^verbatim>\<open>typedef struct Point { double x, y; } Point;\<close>\<close>

record Point =
  px :: double
  py :: double

text \<open>
  \<^verbatim>\<open>Point samplePoints[MAXTABLES][MAXSAMPLES];\<close> The array has static storage, so every
  slot starts as the point (0, 0). The table is a function of the two indices; whether an
  index pair lies inside the array is \<open>in_bounds\<close>.
\<close>

type_synonym table = "int \<Rightarrow> int \<Rightarrow> Point"

definition zero_table :: table where
  "zero_table = (\<lambda>t s. \<lparr>px = 0, py = 0\<rparr>)"

definition in_bounds :: "int \<Rightarrow> int \<Rightarrow> bool" where
  "in_bounds t s \<longleftrightarrow> 0 \<le> t \<and> t < MAXTABLES \<and> 0 \<le> s \<and> s < MAXSAMPLES"

datatype error = OutOfBounds

text \<open>The known functions and their reference values, in the order of the source.\<close>

definition functionTable :: "(string \<times> double) list" where
  "functionTable =
    [(''quarterdisk'', 0.5),
     (''fulldisk'', 0.5),
     (''triangle'', 0.5),
     (''quarterdiskramp'', 0.505273),
     (''fulldiskramp'', 0.505273),
     (''triangleramp'', 0.5),
     (''quartergaussian'', 0.55774629),
     (''fullgaussian'', 0.851121),
     (''bilinear'', 0.25),
     (''biquadratic'', 1.0 / 9.0),
     (''sinxy'', 0.0),
     (''sininvr'', - 0.220242),
     (''stepx'', 1.0 / M_PI),
     (''rampx'', 0.3),
     (''lineary'', 0.5),
     (''gaussianx'', 0.74682413),
     (''siny'', 2.0 / M_PI),
     (''sin2x'', 0.0)]"

subsection \<open>The functions\<close>

definition quarterdisk :: "double \<Rightarrow> double \<Rightarrow> double" where
  "quarterdisk x y =
    (let radius2 = 2.0 / M_PI;
         r2 = x * x + y * y
     in if r2 < radius2 then 1.0 else 0.0)"

definition fulldisk :: "double \<Rightarrow> double \<Rightarrow> double" where
  "fulldisk x0 y0 =
    (let radius2 = 1.0 / (2.0 * M_PI);
         x = x0 - 0.5;
         y = y0 - 0.5;
         r2 = x * x + y * y
     in if r2 < radius2 then 1.0 else 0.0)"

definition triangle :: "double \<Rightarrow> double \<Rightarrow> double" where
  "triangle x y = (if x + y < 1.0 then 1.0 else 0.0)"

definition quarterdiskramp :: "double \<Rightarrow> double \<Rightarrow> double" where
  "quarterdiskramp x y =
    (let innerRadius = 0.7; outerRadius = 0.9;
         r = sqrt (x * x + y * y)
     in if r \<le> innerRadius then 1.0
        else if r \<ge> outerRadius then 0.0
        else 1.0 - (r - innerRadius) / (outerRadius - innerRadius))"

definition fulldiskramp :: "double \<Rightarrow> double \<Rightarrow> double" where
  "fulldiskramp x0 y0 =
    (let innerRadius = 0.35; outerRadius = 0.45;
         x = x0 - 0.5;
         y = y0 - 0.5;
         r = sqrt (x * x + y * y)
     in if r \<le> innerRadius then 1.0
        else if r \<ge> outerRadius then 0.0
        else 1.0 - (r - innerRadius) / (outerRadius - innerRadius))"

definition triangleramp :: "double \<Rightarrow> double \<Rightarrow> double" where
  "triangleramp x y =
    (let ymx0 = 5.0 * (y - x);
         ymx = (if ymx0 \<ge> 0.5 then 0.5 else if ymx0 \<le> - 0.5 then - 0.5 else ymx0)
     in ymx + 0.5)"

definition quartergaussian2D :: "double \<Rightarrow> double \<Rightarrow> double" where
  "quartergaussian2D x y = exp (- x * x - y * y)"

definition fullgaussian2D :: "double \<Rightarrow> double \<Rightarrow> double" where
  "fullgaussian2D x0 y0 =
    (let x = x0 - 0.5;
         y = y0 - 0.5
     in exp (- x * x - y * y))"

definition bilinear :: "double \<Rightarrow> double \<Rightarrow> double" where
  "bilinear x y = x * y"

definition biquadratic :: "double \<Rightarrow> double \<Rightarrow> double" where
  "biquadratic x y = x * x * y * y"

definition sinxy :: "double \<Rightarrow> double \<Rightarrow> double" where
  "sinxy x y = sin (M_PI * (x + y))"

definition sininvr :: "double \<Rightarrow> double \<Rightarrow> double" where
  "sininvr x y =
    (let r = sqrt (x * x + y * y)
     in if r > 0.0 then sin (M_PI / r) else 1.0)"

definition step :: "double \<Rightarrow> double" where
  "step x = (if x < 1.0 / M_PI then 1.0 else 0.0)"

definition ramp :: "double \<Rightarrow> double" where
  "ramp x =
    (let left = 0.2; right = 0.4
     in if x \<le> left then 1.0
        else if x \<ge> right then 0.0
        else 1.0 - (x - left) / (right - left))"

text \<open>The source's \<^verbatim>\<open>linear\<close>; the name is taken by a constant of the library.\<close>

definition linear_fn :: "double \<Rightarrow> double" where
  "linear_fn x = x"

definition gaussian1D :: "double \<Rightarrow> double" where
  "gaussian1D x = exp (- x * x)"

definition sinx :: "double \<Rightarrow> double" where
  "sinx x = sin (M_PI * x)"

definition sin2x :: "double \<Rightarrow> double" where
  "sin2x x = sin (2.0 * M_PI * x)"

text \<open>
  The \<^verbatim>\<open>switch\<close> of \<^verbatim>\<open>evaluateFunction\<close>, applied to the point already loaded into
  \<^verbatim>\<open>sample\<close>. A function number outside 0..17 matches no case and leaves
  \<^verbatim>\<open>result = 0.0\<close>.
\<close>

definition dispatch :: "int \<Rightarrow> Point \<Rightarrow> double" where
  "dispatch functionNum sample =
    (if functionNum = 0 then quarterdisk (px sample) (py sample)
     else if functionNum = 1 then fulldisk (px sample) (py sample)
     else if functionNum = 2 then triangle (px sample) (py sample)
     else if functionNum = 3 then quarterdiskramp (px sample) (py sample)
     else if functionNum = 4 then fulldiskramp (px sample) (py sample)
     else if functionNum = 5 then triangleramp (px sample) (py sample)
     else if functionNum = 6 then quartergaussian2D (px sample) (py sample)
     else if functionNum = 7 then fullgaussian2D (px sample) (py sample)
     else if functionNum = 8 then bilinear (px sample) (py sample)
     else if functionNum = 9 then biquadratic (px sample) (py sample)
     else if functionNum = 10 then sinxy (px sample) (py sample)
     else if functionNum = 11 then sininvr (px sample) (py sample)
     else if functionNum = 12 then step (px sample)
     else if functionNum = 13 then ramp (px sample)
     else if functionNum = 14 then linear_fn (py sample)
     else if functionNum = 15 then gaussian1D (px sample)
     else if functionNum = 16 then sinx (py sample)
     else if functionNum = 17 then sin2x (px sample)
     else 0.0)"

text \<open>Evaluate function at sample point \<open>s\<close> from table \<open>t\<close>.\<close>

definition evaluateFunction :: "table \<Rightarrow> int \<Rightarrow> int \<Rightarrow> int \<Rightarrow> error + double" where
  "evaluateFunction samplePoints functionNum t s =
    (if in_bounds t s then Inr (dispatch functionNum (samplePoints t s))
     else Inl OutOfBounds)"

subsection \<open>Finding the function name\<close>

text \<open>
  \<^verbatim>\<open>for (i = 0; i < NUMFUNCTIONS; i++) { match = (strcmp(...) == 0); if (match) break; }\<close>
  The value is \<open>i\<close> after the loop: the index of the first entry with that name, or
  \<open>NUMFUNCTIONS\<close>.
\<close>

function find_function :: "string \<Rightarrow> int \<Rightarrow> int" where
  "find_function functionName i =
    (if i < NUMFUNCTIONS then
       (if functionName = fst (functionTable ! nat i) then i
        else find_function functionName (i + 1))
     else i)"
  by pat_completeness auto
termination
  by (relation "measure (\<lambda>(n, i). nat (NUMFUNCTIONS - i))") auto

declare find_function.simps [simp del]

subsection \<open>The input stream\<close>

text \<open>
  An open \<^verbatim>\<open>FILE*\<close> is the text that is still unread. \<^verbatim>\<open>fscanf(fd, "%c", &c)\<close> stores
  the next character and consumes it; at the end of the input it fails and leaves \<open>c\<close>
  as it was.
\<close>

definition newline :: char where
  "newline = CHR 0x0A"

definition fscanf_c :: "char \<Rightarrow> string \<Rightarrow> char \<times> string" where
  "fscanf_c c fd = (case fd of [] \<Rightarrow> (c, []) | ch # rest \<Rightarrow> (ch, rest))"

text \<open>
  \<^verbatim>\<open>do { fscanf(fd, "%c", &c); } while (c != '\n');\<close> The loop does not look at what
  \<^verbatim>\<open>fscanf\<close> returns, so at the end of the input it keeps testing the same \<open>c\<close>.
\<close>

partial_function (option) skipLine_loop :: "char \<Rightarrow> string \<Rightarrow> string option" where
  "skipLine_loop c fd =
    (let c' = fst (fscanf_c c fd); fd' = snd (fscanf_c c fd)
     in if c' \<noteq> newline then skipLine_loop c' fd' else Some fd')"

text \<open>
  Skip a line in file (usually a comment). The local \<^verbatim>\<open>char c\<close> is declared without a
  value; what it holds when the function is entered is the parameter \<open>c0\<close> (one
  value for all the calls of a run).
\<close>

definition skipLine :: "char \<Rightarrow> string \<Rightarrow> string option" where
  "skipLine c0 fd = skipLine_loop c0 fd"

text \<open>\<^verbatim>\<open>for (line = 0; line < n; line++) skipLine(fd);\<close> for the constants 3 and 2.\<close>

primrec skipLines :: "nat \<Rightarrow> char \<Rightarrow> string \<Rightarrow> string option" where
  "skipLines 0 c0 fd = Some fd"
| "skipLines (Suc n) c0 fd =
    (case skipLine c0 fd of None \<Rightarrow> None | Some fd' \<Rightarrow> skipLines n c0 fd')"

text \<open>
  \<^verbatim>\<open>fscanf(fd, "%lf %lf", &x, &y)\<close>, after the C standard. Each \<^verbatim>\<open>%lf\<close> skips white
  space; the end of the input there is an input failure, which returns \<^verbatim>\<open>EOF\<close> (-1)
  before the first conversion and the number of assignments after it; text that is not
  a number is a matching failure, which returns the number of assignments. The
  recogniser of one number is the parameter \<open>scan\<close> (the library's; it returns the value
  and the rest of the input). The result is the return value, the new \<open>x\<close> and \<open>y\<close>,
  and the rest of the input.
\<close>

definition isspace :: "char \<Rightarrow> bool" where
  "isspace c \<longleftrightarrow> c \<in> set [CHR '' '', CHR 0x09, CHR 0x0A, CHR 0x0B, CHR 0x0C, CHR 0x0D]"

type_synonym scanner = "string \<Rightarrow> (double \<times> string) option"

definition fscanf_lf_lf ::
    "scanner \<Rightarrow> double \<times> double \<Rightarrow> string \<Rightarrow> int \<times> (double \<times> double) \<times> string" where
  "fscanf_lf_lf scan xy fd =
    (let fd1 = dropWhile isspace fd
     in if fd1 = [] then (- 1, xy, fd1)
        else case scan fd1 of
          None \<Rightarrow> (0, xy, fd1)
        | Some (x', fd2) \<Rightarrow>
            (let fd3 = dropWhile isspace fd2
             in if fd3 = [] then (1, (x', snd xy), fd3)
                else case scan fd3 of
                  None \<Rightarrow> (1, (x', snd xy), fd3)
                | Some (y', fd4) \<Rightarrow> (2, (x', y'), fd4)))"

subsection \<open>Reading the tables\<close>

text \<open>
  The inner loop of the reader, for one sequence \<open>t\<close>, from sample \<open>s\<close> on. Only the return
  value -1 leaves the loop; after any other return value \<open>x\<close> and \<open>y\<close> are stored.
\<close>

function read_samples ::
    "scanner \<Rightarrow> int \<Rightarrow> int \<Rightarrow> int \<Rightarrow> double \<times> double \<Rightarrow> string \<Rightarrow> table \<Rightarrow>
     error + ((double \<times> double) \<times> string \<times> table)" where
  "read_samples scan numSamples t s xy fd samplePoints =
    (if s < numSamples then
       (let r = fscanf_lf_lf scan xy fd;
            ok = fst r; xy' = fst (snd r); fd' = snd (snd r)
        in if ok = - 1 then Inr (xy', fd', samplePoints)
           else if in_bounds t s then
             read_samples scan numSamples t (s + 1) xy' fd'
               (samplePoints(t := (samplePoints t)(s := \<lparr>px = fst xy', py = snd xy'\<rparr>)))
           else Inl OutOfBounds)
     else Inr (xy, fd, samplePoints))"
  by pat_completeness auto
termination
  by (relation "measure (\<lambda>(scan, numSamples, t, s, xy, fd, samplePoints). nat (numSamples - s))")
    auto

declare read_samples.simps [simp del]

text \<open>
  Read \<open>numSequences\<close> sequences with \<open>numSamples\<close> sample points in each; after each
  sequence skip the newline and the one-line comment.
\<close>

function read_tables ::
    "scanner \<Rightarrow> char \<Rightarrow> int \<Rightarrow> int \<Rightarrow> int \<Rightarrow> double \<times> double \<Rightarrow> string \<Rightarrow> table \<Rightarrow>
     (error + table) option" where
  "read_tables scan c0 numSamples numSequences t xy fd samplePoints =
    (if t < numSequences then
       (case read_samples scan numSamples t 0 xy fd samplePoints of
          Inl e \<Rightarrow> Some (Inl e)
        | Inr r \<Rightarrow>
            (case skipLines 2 c0 (fst (snd r)) of
               None \<Rightarrow> None
             | Some fd' \<Rightarrow>
                 read_tables scan c0 numSamples numSequences (t + 1) (fst r) fd' (snd (snd r))))
     else Some (Inr samplePoints))"
  by pat_completeness auto
termination
  by (relation "measure (\<lambda>(scan, c0, numSamples, numSequences, t, xy, fd, samplePoints).
        nat (numSequences - t))") auto

declare read_tables.simps [simp del]

subsection \<open>Standard output\<close>

text \<open>
  \<^verbatim>\<open>stdout\<close> is buffered: \<^verbatim>\<open>printf\<close> appends to the buffer, \<^verbatim>\<open>fflush\<close> hands the
  buffer over to the reader of the stream. When the program ends, what is still in the
  buffer is written.
\<close>

record ostream =
  pending :: string
  written :: string

definition stdout_init :: ostream where
  "stdout_init = \<lparr>pending = [], written = []\<rparr>"

definition printf :: "string \<Rightarrow> ostream \<Rightarrow> ostream" where
  "printf text out = out\<lparr>pending := pending out @ text\<rparr>"

definition fflush :: "ostream \<Rightarrow> ostream" where
  "fflush out = \<lparr>pending = [], written = written out @ pending out\<rparr>"

definition at_exit :: "ostream \<Rightarrow> string" where
  "at_exit out = written out @ pending out"

text \<open>The conversion \<^verbatim>\<open>%i\<close>: decimal digits, with a minus sign for a negative number.\<close>

definition digit_char :: "nat \<Rightarrow> char" where
  "digit_char d = ''0123456789'' ! d"

function decimal :: "nat \<Rightarrow> string" where
  "decimal n = (if n < 10 then [digit_char n] else decimal (n div 10) @ [digit_char (n mod 10)])"
  by pat_completeness auto
termination
  by (relation "measure (\<lambda>n. n)") auto

declare decimal.simps [simp del]

definition printf_i :: "int \<Rightarrow> string" where
  "printf_i n = (if n < 0 then CHR ''-'' # decimal (nat (- n)) else decimal (nat n))"

text \<open>
  The value of \<^verbatim>\<open>sumerror / numSequences\<close>, a \<^verbatim>\<open>double\<close> divided by an \<^verbatim>\<open>int\<close>. A
  divisor 0 gives no number: the quotient is an infinity, or not a number for 0.0 / 0.
\<close>

datatype quotient = Finite double | PlusInf | MinusInf | NaN

definition divide_by_int :: "double \<Rightarrow> int \<Rightarrow> quotient" where
  "divide_by_int a n =
    (if n \<noteq> 0 then Finite (a / of_int n)
     else if a > 0 then PlusInf
     else if a < 0 then MinusInf
     else NaN)"

text \<open>
  The conversion \<^verbatim>\<open>%f\<close>, after the C standard: the number in decimal with 6 digits
  after the decimal point, rounded to that many digits (a tie goes to the even digit);
  an infinity and a value that is not a number are spelt out (\<^verbatim>\<open>inf\<close>, \<^verbatim>\<open>nan\<close>; some
  platforms put a sign before \<^verbatim>\<open>nan\<close>), without any digit.
\<close>

primrec fixed_digits :: "nat \<Rightarrow> nat \<Rightarrow> string" where
  "fixed_digits 0 n = []"
| "fixed_digits (Suc k) n = fixed_digits k (n div 10) @ [digit_char (n mod 10)]"

definition round_half_even :: "real \<Rightarrow> int" where
  "round_half_even q =
    (let f = \<lfloor>q\<rfloor>; r = q - of_int f
     in if r < 1 / 2 then f
        else if r > 1 / 2 then f + 1
        else if even f then f else f + 1)"

definition printf_f :: "quotient \<Rightarrow> string" where
  "printf_f v =
    (case v of
       Finite a \<Rightarrow>
         (let n = nat (round_half_even (\<bar>a\<bar> * 1000000))
          in (if a < 0 then ''-'' else []) @ decimal (n div 1000000) @ ''.'' @
             fixed_digits 6 (n mod 1000000))
     | PlusInf \<Rightarrow> ''inf''
     | MinusInf \<Rightarrow> ''-inf''
     | NaN \<Rightarrow> ''nan'')"

subsection \<open>The estimator\<close>

text \<open>\<^verbatim>\<open>#define MAX(a,b) ((a > b) ? (a) : (b))\<close> (the name \<open>MAX\<close> is syntax of the library).\<close>

definition MAX_macro :: "double \<Rightarrow> double \<Rightarrow> double" where
  "MAX_macro a b = (if a > b then a else b)"

text \<open>
  The loop over the sequences (the trials) at the sample index \<open>s\<close>, from sequence \<open>t\<close>
  on. \<open>sumresults\<close> is the allocated array of \<open>numSequences\<close> running sums; the loop only
  touches the indices below \<open>numSequences\<close>. The divisor \<open>s + 1\<close> is at least 1, since
  the sample loop starts at 0.
\<close>

function sequence_loop ::
    "table \<Rightarrow> int \<Rightarrow> double \<Rightarrow> int \<Rightarrow> int \<Rightarrow> int \<Rightarrow> double list \<Rightarrow> double \<Rightarrow> double \<Rightarrow>
     error + (double list \<times> double \<times> double)" where
  "sequence_loop samplePoints functionNumber reference numSequences s t
      sumresults sumerror maxerror =
    (if t < numSequences then
       (case evaluateFunction samplePoints functionNumber t s of
          Inl e \<Rightarrow> Inl e
        | Inr result \<Rightarrow>
            (let sumresults' = sumresults[nat t := sumresults ! nat t + result];
                 estimate = sumresults' ! nat t / of_int (s + 1);
                 error = \<bar>estimate - reference\<bar>
             in sequence_loop samplePoints functionNumber reference numSequences s (t + 1)
                  sumresults' (sumerror + error) (MAX_macro error maxerror)))
     else Inr (sumresults, sumerror, maxerror))"
  by pat_completeness auto
termination
  by (relation "measure (\<lambda>(samplePoints, functionNumber, reference, numSequences, s, t,
        sumresults, sumerror, maxerror). nat (numSequences - t))") auto

declare sequence_loop.simps [simp del]

text \<open>\<^verbatim>\<open>if ((s+1) % 4 == 0) { printf("%i %f\n", s+1, aveerror); fflush(stdout); }\<close>\<close>

definition report_line :: "int \<Rightarrow> quotient \<Rightarrow> string" where
  "report_line n aveerror = printf_i n @ '' '' @ printf_f aveerror @ [newline]"

definition report :: "int \<Rightarrow> quotient \<Rightarrow> ostream \<Rightarrow> ostream" where
  "report s aveerror out =
    (if (s + 1) mod 4 = 0 then fflush (printf (report_line (s + 1) aveerror) out) else out)"

text \<open>
  The loop over the sample counts, from the sample index \<open>s\<close> on. The program keeps
  \<open>aveerror\<close> and \<open>maxerror\<close> only until the next round; to state what they are in each
  round, the model returns them in a list of (sample count, \<open>aveerror\<close>, \<open>maxerror\<close>),
  next to the array of running sums and the output stream.
\<close>

type_synonym history = "(int \<times> quotient \<times> double) list"

function sample_loop ::
    "table \<Rightarrow> int \<Rightarrow> double \<Rightarrow> int \<Rightarrow> int \<Rightarrow> int \<Rightarrow> double list \<Rightarrow> ostream \<Rightarrow> history \<Rightarrow>
     error + (double list \<times> ostream \<times> history)" where
  "sample_loop samplePoints functionNumber reference numSamples numSequences s
      sumresults out hist =
    (if s < numSamples then
       (case sequence_loop samplePoints functionNumber reference numSequences s 0
               sumresults 0.0 0.0 of
          Inl e \<Rightarrow> Inl e
        | Inr r \<Rightarrow>
            (let sumresults' = fst r; sumerror = fst (snd r); maxerror = snd (snd r);
                 aveerror = divide_by_int sumerror numSequences
             in sample_loop samplePoints functionNumber reference numSamples numSequences (s + 1)
                  sumresults' (report s aveerror out) (hist @ [(s + 1, aveerror, maxerror)])))
     else Inr (sumresults, out, hist))"
  by pat_completeness auto
termination
  by (relation "measure (\<lambda>(samplePoints, functionNumber, reference, numSamples, numSequences,
        s, sumresults, out, hist). nat (numSamples - s))") auto

declare sample_loop.simps [simp del]

text \<open>
  Allocate and init the running sums, then loop over the sample counts. The allocation
  is taken to succeed.
\<close>

definition estimator ::
    "table \<Rightarrow> int \<Rightarrow> double \<Rightarrow> int \<Rightarrow> int \<Rightarrow> ostream \<Rightarrow>
     error + (double list \<times> ostream \<times> history)" where
  "estimator samplePoints functionNumber reference numSamples numSequences out =
    sample_loop samplePoints functionNumber reference numSamples numSequences 0
      (replicate (nat numSequences) 0.0) out []"

subsection \<open>The program\<close>

text \<open>
  \<^verbatim>\<open>atoi\<close>, after the C standard: white space, an optional sign, decimal digits; 0 when
  there is no digit. A value that does not fit an \<^verbatim>\<open>int\<close> is undefined in C; the model
  keeps the number.
\<close>

definition isdigit :: "char \<Rightarrow> bool" where
  "isdigit c \<longleftrightarrow> c \<in> set ''0123456789''"

definition digit_value :: "char \<Rightarrow> nat" where
  "digit_value c = of_char c - 48"

definition digits_value :: "string \<Rightarrow> nat" where
  "digits_value ds = foldl (\<lambda>a c. 10 * a + digit_value c) 0 ds"

definition atoi :: "string \<Rightarrow> int" where
  "atoi str =
    (let s1 = dropWhile isspace str;
         neg = (s1 \<noteq> [] \<and> hd s1 = CHR ''-'');
         s2 = (if s1 \<noteq> [] \<and> (hd s1 = CHR ''-'' \<or> hd s1 = CHR ''+'') then tl s1 else s1);
         v = int (digits_value (takeWhile isdigit s2))
     in if neg then - v else v)"

definition usage_text :: string where
  "usage_text =
    ''Usage: funcsamp2D functionName samplesFilename [numSamples numSequences]'' @ [newline]"

definition unknown_function_text :: "string \<Rightarrow> string" where
  "unknown_function_text functionName =
    ''Unknown function: '' @ [CHR 0x27] @ functionName @ [CHR 0x27, newline]"

definition cannot_open_text :: "string \<Rightarrow> string" where
  "cannot_open_text samplesFilename =
    ''cannot open file '' @ [CHR 0x27] @ samplesFilename @ [CHR 0x27, newline]"

text \<open>
  \<^verbatim>\<open>main\<close>, in two parts. The arguments of both: the number recogniser of
  \<^verbatim>\<open>fscanf\<close>, the files that can be opened (name to contents), what the uninitialised
  \<open>c\<close> of \<open>skipLine\<close> and the uninitialised \<open>x\<close>, \<open>y\<close> of \<^verbatim>\<open>main\<close> hold, and \<open>argv\<close>.
  The result is \<open>None\<close> when the program does not end, the error when it leaves the
  sample table, and else the exit status with everything written to standard output.

  The second part is \<^verbatim>\<open>main\<close> from \<^verbatim>\<open>samplesFilename = argv[2]\<close> on, with the
  \<open>functionNumber\<close> and the \<open>reference\<close> that the first part has set.
\<close>

definition main_run ::
    "scanner \<Rightarrow> (string \<Rightarrow> string option) \<Rightarrow> char \<Rightarrow> double \<times> double \<Rightarrow> string list \<Rightarrow>
     int \<Rightarrow> double \<Rightarrow> (error + int \<times> string) option" where
  "main_run scan files c0 xy0 argv functionNumber reference =
    (let argc = int (length argv);
         samplesFilename = argv ! 2;
         numSamples = (if argc > 3 then atoi (argv ! 3) else 1024);
         numSequences = (if argc > 4 then atoi (argv ! 4) else 100)
     in case files samplesFilename of
          None \<Rightarrow> Some (Inr (1, at_exit (printf (cannot_open_text samplesFilename) stdout_init)))
        | Some fd \<Rightarrow>
            (case skipLines 3 c0 fd of
               None \<Rightarrow> None
             | Some fd1 \<Rightarrow>
                 (case read_tables scan c0 numSamples numSequences 0 xy0 fd1 zero_table of
                    None \<Rightarrow> None
                  | Some (Inl e) \<Rightarrow> Some (Inl e)
                  | Some (Inr samplePoints) \<Rightarrow>
                      (case estimator samplePoints functionNumber reference
                              numSamples numSequences stdout_init of
                         Inl e \<Rightarrow> Some (Inl e)
                       | Inr r \<Rightarrow> Some (Inr (0, at_exit (fst (snd r))))))))"

text \<open>The first part: the check of the argument count and the search for the name.\<close>

definition main ::
    "scanner \<Rightarrow> (string \<Rightarrow> string option) \<Rightarrow> char \<Rightarrow> double \<times> double \<Rightarrow> string list \<Rightarrow>
     (error + int \<times> string) option" where
  "main scan files c0 xy0 argv =
    (let argc = int (length argv)
     in if argc < 3 \<or> argc > 5 then Some (Inr (1, at_exit (printf usage_text stdout_init)))
        else
          (let functionName = argv ! 1;
               i = find_function functionName 0
           in if i = NUMFUNCTIONS then
                Some (Inr (1, at_exit (printf (unknown_function_text functionName) stdout_init)))
              else
                (let functionNumber = i;
                     reference = snd (functionTable ! nat i)
                 in main_run scan files c0 xy0 argv functionNumber reference)))"

subsection \<open>A number recogniser\<close>

text \<open>
  One recogniser for the parameter \<open>scan\<close>, for the plain decimal numbers of the sample
  files: an optional sign, digits, and optionally a point and more digits, with at least
  one digit in all.
\<close>

definition scan_decimal :: scanner where
  "scan_decimal str =
    (let neg = (str \<noteq> [] \<and> hd str = CHR ''-'');
         s1 = (if str \<noteq> [] \<and> (hd str = CHR ''-'' \<or> hd str = CHR ''+'') then tl str else str);
         ip = takeWhile isdigit s1;
         s2 = dropWhile isdigit s1;
         pt = (s2 \<noteq> [] \<and> hd s2 = CHR ''.'');
         fr = (if pt then takeWhile isdigit (tl s2) else []);
         s3 = (if pt then dropWhile isdigit (tl s2) else s2);
         v = real (digits_value ip) + real (digits_value fr) / 10 ^ length fr
     in if ip = [] \<and> fr = [] then None
        else Some (if neg then - v else v, s3))"

subsection \<open>What the estimator is to compute\<close>

text \<open>
  The quantities of the specification, written down from its words, to be compared with
  the loops above: the running sum of sequence \<open>t\<close> after the samples 0..\<open>s\<close>, the
  estimate (running sum over the number of samples), the error (distance to the reference
  value), the errors of the sequences 0..\<open>numSequences - 1\<close>, and their mean.
\<close>

definition running_sum :: "table \<Rightarrow> int \<Rightarrow> int \<Rightarrow> int \<Rightarrow> double" where
  "running_sum samplePoints functionNumber t s =
    sum_list (map (\<lambda>k. dispatch functionNumber (samplePoints t k)) [0..s])"

definition estimate_at :: "table \<Rightarrow> int \<Rightarrow> int \<Rightarrow> int \<Rightarrow> double" where
  "estimate_at samplePoints functionNumber t s =
    running_sum samplePoints functionNumber t s / of_int (s + 1)"

definition error_at :: "table \<Rightarrow> int \<Rightarrow> double \<Rightarrow> int \<Rightarrow> int \<Rightarrow> double" where
  "error_at samplePoints functionNumber reference t s =
    \<bar>estimate_at samplePoints functionNumber t s - reference\<bar>"

definition errors_at :: "table \<Rightarrow> int \<Rightarrow> double \<Rightarrow> int \<Rightarrow> int \<Rightarrow> double list" where
  "errors_at samplePoints functionNumber reference numSequences s =
    map (\<lambda>t. error_at samplePoints functionNumber reference t s) [0..numSequences - 1]"

definition mean :: "double list \<Rightarrow> double" where
  "mean xs = sum_list xs / real (length xs)"






text \<open>
  The catalog of the specification: each name with the function that evaluates it, as a
  function of the two coordinates of the sample point.
\<close>

definition catalog :: "(string \<times> (double \<Rightarrow> double \<Rightarrow> double)) list" where
  "catalog =
    [(''quarterdisk'', quarterdisk),
     (''fulldisk'', fulldisk),
     (''triangle'', triangle),
     (''quarterdiskramp'', quarterdiskramp),
     (''fulldiskramp'', fulldiskramp),
     (''triangleramp'', triangleramp),
     (''quartergaussian'', quartergaussian2D),
     (''fullgaussian'', fullgaussian2D),
     (''bilinear'', bilinear),
     (''biquadratic'', biquadratic),
     (''sinxy'', sinxy),
     (''sininvr'', sininvr),
     (''stepx'', \<lambda>x y. step x),
     (''rampx'', \<lambda>x y. ramp x),
     (''lineary'', \<lambda>x y. linear_fn y),
     (''gaussianx'', \<lambda>x y. gaussian1D x),
     (''siny'', \<lambda>x y. sinx y),
     (''sin2x'', \<lambda>x y. sin2x x)]"

subsection \<open>Auxiliary notions for the proofs\<close>

text \<open>
  The error of sequence \<open>j\<close> that one round of the sequence loop computes from the array
  \<open>acc\<close> of running sums it starts with; the array of running sums after sample \<open>s\<close>; the
  history entry of round \<open>s\<close> as the loops compute it; and the output stream after the
  reports of a list of history entries.
\<close>

definition err_of :: "table \<Rightarrow> int \<Rightarrow> double \<Rightarrow> int \<Rightarrow> double list \<Rightarrow> int \<Rightarrow> double" where
  "err_of tbl fn ref s acc j = \<bar>(acc ! nat j + dispatch fn (tbl j s)) / of_int (s + 1) - ref\<bar>"

definition sums_upto :: "table \<Rightarrow> int \<Rightarrow> int \<Rightarrow> int \<Rightarrow> double list" where
  "sums_upto tbl fn n s = map (\<lambda>t. running_sum tbl fn t s) [0..n - 1]"

definition raw_entry :: "table \<Rightarrow> int \<Rightarrow> double \<Rightarrow> int \<Rightarrow> int \<Rightarrow> int \<times> quotient \<times> double" where
  "raw_entry tbl fn ref n s =
    (s + 1, divide_by_int (sum_list (errors_at tbl fn ref n s)) n,
     foldl (\<lambda>m e. MAX_macro e m) 0 (errors_at tbl fn ref n s))"

definition report_all :: "ostream \<Rightarrow> history \<Rightarrow> ostream" where
  "report_all out es = foldl (\<lambda>out e. report (fst e - 1) (fst (snd e)) out) out es"

subsection \<open>Inputs for the examples\<close>

text \<open>
  A sample file with one sequence, the four corners of the unit square, and a closing
  comment line; and the table that holds these four points as sequence 0.
\<close>

definition corners_data :: string where
  "corners_data =
    ''0 0'' @ [newline] @
    ''1 0'' @ [newline] @
    ''0 1'' @ [newline] @
    ''1 1'' @ [newline] @
    ''// end'' @ [newline]"

definition corners_file :: string where
  "corners_file =
    ''// four corners'' @ [newline] @
    ''// of the unit square'' @ [newline] @
    ''// Sequence 0:'' @ [newline] @
    corners_data"

definition corners_table :: table where
  "corners_table = zero_table
     (0 := (zero_table 0)
        (0 := \<lparr>px = 0, py = 0\<rparr>, 1 := \<lparr>px = 1, py = 0\<rparr>,
         2 := \<lparr>px = 0, py = 1\<rparr>, 3 := \<lparr>px = 1, py = 1\<rparr>))"

definition corners_files :: "string \<Rightarrow> string option" where
  "corners_files name = (if name = ''corners.data'' then Some corners_file else None)"

text \<open>
  A file whose only sequence has two points where four are asked for, ending after the
  second point; the table after reading it; the same file with a last line that has no
  newline; and the start of a file whose first sequence has one point where two are
  asked for, followed by the comment line of the next sequence.
\<close>

definition header :: string where
  "header =
    ''// samples'' @ [newline] @
    ''// for a test'' @ [newline] @
    ''// Sequence 0:'' @ [newline]"

definition short_data :: string where
  "short_data = ''1 1'' @ [newline] @ ''1 1'' @ [newline]"

definition short_files :: "string \<Rightarrow> string option" where
  "short_files name = (if name = ''short.data'' then Some (header @ short_data) else None)"

definition short_table :: table where
  "short_table = zero_table
     (0 := (zero_table 0) (0 := \<lparr>px = 1, py = 1\<rparr>, 1 := \<lparr>px = 1, py = 1\<rparr>))"

definition unfinished_data :: string where
  "unfinished_data = ''1 1'' @ [newline] @ ''1 1'' @ [newline] @ ''// end''"

definition unfinished_files :: "string \<Rightarrow> string option" where
  "unfinished_files name =
    (if name = ''unfinished.data'' then Some (header @ unfinished_data) else None)"


section \<open>Properties\<close>

subsection \<open>Skipping lines\<close>

lemma skipLine_loop_Some_D:
  assumes "skipLine_loop c fd = Some r"
  shows "c = newline \<or> newline \<in> set fd"
proof (rule skipLine_loop.raw_induct
    [where P = "\<lambda>c fd r. c = newline \<or> newline \<in> set fd", OF _ assms])
  fix loop :: "char \<Rightarrow> string \<Rightarrow> string option" and c fd r
  assume IH: "\<And>c fd r. loop c fd = Some r \<Longrightarrow> c = newline \<or> newline \<in> set fd"
    and body: "(let c' = fst (fscanf_c c fd); fd' = snd (fscanf_c c fd)
       in if c' \<noteq> newline then loop c' fd' else Some fd') = Some r"
  show "c = newline \<or> newline \<in> set fd"
  proof (cases fd)
    case Nil
    with body IH [of c "[]" r] show ?thesis
      by (auto simp: fscanf_c_def split: if_splits)
  next
    case (Cons ch rest)
    with body IH [of ch rest r] show ?thesis
      by (auto simp: fscanf_c_def split: if_splits)
  qed
qed

lemma skipLine_loop_None:
  "c \<noteq> newline \<Longrightarrow> newline \<notin> set fd \<Longrightarrow> skipLine_loop c fd = None"
  using skipLine_loop_Some_D [of c fd] by (cases "skipLine_loop c fd") auto

lemma skipLine_loop_stuck:
  "fd \<noteq> [] \<Longrightarrow> newline \<notin> set fd \<Longrightarrow> skipLine_loop c fd = None"
  by (cases fd) (auto simp: skipLine_loop.simps [of c] fscanf_c_def Let_def skipLine_loop_None)

lemma skipLine_loop_line:
  "newline \<notin> set xs \<Longrightarrow> skipLine_loop c (xs @ newline # rest) = Some rest"
  by (induction xs arbitrary: c) (auto simp: skipLine_loop.simps [of _ "_ # _"] fscanf_c_def Let_def)

lemma skipLine_loop_eof: "skipLine_loop newline [] = Some []"
  by (simp add: skipLine_loop.simps [of _ "[]"] fscanf_c_def)

subsection \<open>The loops of the estimator\<close>

lemma err_of_update:
  "0 \<le> t \<Longrightarrow> t < j \<Longrightarrow> err_of tbl fn ref s (acc[nat t := v]) j = err_of tbl fn ref s acc j"
  by (simp add: err_of_def)

lemma sequence_loop_result:
  assumes "0 \<le> s" "s < MAXSAMPLES" "0 \<le> t" "n \<le> MAXTABLES" "length acc = nat n"
  shows "\<exists>acc'. sequence_loop tbl fn ref n s t acc se me =
      Inr (acc', se + sum_list (map (err_of tbl fn ref s acc) [t..n - 1]),
        foldl (\<lambda>m e. MAX_macro e m) me (map (err_of tbl fn ref s acc) [t..n - 1])) \<and>
      length acc' = length acc \<and>
      (\<forall>j. 0 \<le> j \<and> j < n \<longrightarrow>
         acc' ! nat j = (if t \<le> j then acc ! nat j + dispatch fn (tbl j s) else acc ! nat j))"
  using assms
proof (induction tbl fn ref n s t acc se me rule: sequence_loop.induct)
  case (1 tbl fn ref n s t acc se me)
  show ?case
  proof (cases "t < n")
    case False
    then show ?thesis
      by (simp add: sequence_loop.simps [of _ _ _ n s t])
  next
    case True
    let ?v = "acc ! nat t + dispatch fn (tbl t s)"
    let ?acc = "acc[nat t := ?v]"
    have inb: "in_bounds t s"
      using True 1 by (simp add: in_bounds_def)
    have ev: "evaluateFunction tbl fn t s = Inr (dispatch fn (tbl t s))"
      using inb by (simp add: evaluateFunction_def)
    have tlen: "nat t < length acc"
      using True 1 by simp
    have e0: "\<bar>?acc ! nat t / (real_of_int s + 1) - ref\<bar> = err_of tbl fn ref s acc t"
      using tlen by (simp add: err_of_def)
    have maps: "map (err_of tbl fn ref s ?acc) [t + 1..n - 1] = map (err_of tbl fn ref s acc) [t + 1..n - 1]"
      using \<open>0 \<le> t\<close> by (intro map_cong) (auto simp: err_of_update)
    from "1.IH" [OF True ev refl refl refl]
    obtain acc' where
      r: "sequence_loop tbl fn ref n s (t + 1) ?acc (se + \<bar>?acc ! nat t / of_int (s + 1) - ref\<bar>)
            (MAX_macro \<bar>?acc ! nat t / of_int (s + 1) - ref\<bar> me) =
          Inr (acc', se + \<bar>?acc ! nat t / of_int (s + 1) - ref\<bar> + sum_list (map (err_of tbl fn ref s ?acc) [t + 1..n - 1]),
            foldl (\<lambda>m e. MAX_macro e m) (MAX_macro \<bar>?acc ! nat t / of_int (s + 1) - ref\<bar> me)
              (map (err_of tbl fn ref s ?acc) [t + 1..n - 1]))"
      and l: "length acc' = length ?acc"
      and n: "\<forall>j. 0 \<le> j \<and> j < n \<longrightarrow>
         acc' ! nat j = (if t + 1 \<le> j then ?acc ! nat j + dispatch fn (tbl j s) else ?acc ! nat j)"
      using 1(2-) True by auto
    have up: "[t..n - 1] = t # [t + 1..n - 1]"
      using True by (simp add: upto_rec1)
    have "sequence_loop tbl fn ref n s t acc se me =
        Inr (acc', se + sum_list (map (err_of tbl fn ref s acc) [t..n - 1]),
        foldl (\<lambda>m e. MAX_macro e m) me (map (err_of tbl fn ref s acc) [t..n - 1]))"
      using True r by (simp add: sequence_loop.simps [of _ _ _ n s t] ev Let_def up maps e0)
    moreover have "length acc' = length acc"
      using l by simp
    moreover have "\<forall>j. 0 \<le> j \<and> j < n \<longrightarrow>
         acc' ! nat j = (if t \<le> j then acc ! nat j + dispatch fn (tbl j s) else acc ! nat j)"
    proof (intro allI impI)
      fix j assume j: "0 \<le> j \<and> j < n"
      show "acc' ! nat j = (if t \<le> j then acc ! nat j + dispatch fn (tbl j s) else acc ! nat j)"
      proof (cases "j = t")
        case True
        with n j tlen show ?thesis by simp
      next
        case False
        then have "nat j \<noteq> nat t" using j \<open>0 \<le> t\<close> by (auto simp: eq_nat_nat_iff)
        with n j False show ?thesis by auto
      qed
    qed
    ultimately show ?thesis by blast
  qed
qed

lemma running_sum_step:
  "0 \<le> s \<Longrightarrow> running_sum tbl fn t s = running_sum tbl fn t (s - 1) + dispatch fn (tbl t s)"
  by (simp add: running_sum_def upto_rec2)

lemma nth_map_upto0: "0 \<le> j \<Longrightarrow> j < n \<Longrightarrow> map g [0..n - 1] ! nat j = g j"
  by (simp)

lemma err_of_sums_upto:
  "0 \<le> s \<Longrightarrow> 0 \<le> j \<Longrightarrow> j < n \<Longrightarrow>
    err_of tbl fn ref s (sums_upto tbl fn n (s - 1)) j = error_at tbl fn ref j s"
  by (simp add: err_of_def sums_upto_def error_at_def estimate_at_def running_sum_step)

lemma errs_sums_upto:
  "0 \<le> s \<Longrightarrow>
    map (err_of tbl fn ref s (sums_upto tbl fn n (s - 1))) [0..n - 1] = errors_at tbl fn ref n s"
  unfolding errors_at_def by (intro map_cong) (auto simp: err_of_sums_upto)

lemma sequence_loop_sums_upto:
  assumes "0 \<le> s" "s < MAXSAMPLES" "n \<le> MAXTABLES"
  shows "sequence_loop tbl fn ref n s 0 (sums_upto tbl fn n (s - 1)) 0 0 =
    Inr (sums_upto tbl fn n s, sum_list (errors_at tbl fn ref n s),
      foldl (\<lambda>m e. MAX_macro e m) 0 (errors_at tbl fn ref n s))"
proof -
  let ?acc = "sums_upto tbl fn n (s - 1)"
  have len: "length ?acc = nat n"
    by (simp add: sums_upto_def)
  from sequence_loop_result [OF assms(1,2) order_refl assms(3) len, of tbl fn ref 0 0]
  obtain acc' where
    r: "sequence_loop tbl fn ref n s 0 ?acc 0 0 =
      Inr (acc', 0 + sum_list (map (err_of tbl fn ref s ?acc) [0..n - 1]),
        foldl (\<lambda>m e. MAX_macro e m) 0 (map (err_of tbl fn ref s ?acc) [0..n - 1]))"
    and l: "length acc' = length ?acc"
    and nth: "\<forall>j. 0 \<le> j \<and> j < n \<longrightarrow>
      acc' ! nat j = (if 0 \<le> j then ?acc ! nat j + dispatch fn (tbl j s) else ?acc ! nat j)"
    by blast
  have "acc' = sums_upto tbl fn n s"
  proof (rule nth_equalityI)
    show "length acc' = length (sums_upto tbl fn n s)"
      using l by (simp add: sums_upto_def)
  next
    fix i assume "i < length acc'"
    then have i: "int i < n" using l len by simp
    from nth [rule_format, of "int i"] i
    have "acc' ! i = ?acc ! i + dispatch fn (tbl (int i) s)" by simp
    also have "\<dots> = sums_upto tbl fn n s ! i"
      using i assms(1) nth_upto [of 0 i "n - 1"]
      by (simp add: sums_upto_def running_sum_step [of s])
    finally show "acc' ! i = sums_upto tbl fn n s ! i" .
  qed
  with r show ?thesis
    by (simp add: errs_sums_upto [OF assms(1)])
qed

lemma sample_loop_result:
  assumes "0 \<le> s" "numSamples \<le> MAXSAMPLES" "n \<le> MAXTABLES"
    "acc = sums_upto tbl fn n (s - 1)"
  shows "sample_loop tbl fn ref numSamples n s acc out hist =
    Inr (sums_upto tbl fn n (max s numSamples - 1),
      report_all out (map (raw_entry tbl fn ref n) [s..numSamples - 1]),
      hist @ map (raw_entry tbl fn ref n) [s..numSamples - 1])"
  using assms
proof (induction tbl fn ref numSamples n s acc out hist rule: sample_loop.induct)
  case (1 tbl fn ref numSamples n s acc out hist)
  show ?case
  proof (cases "s < numSamples")
    case False
    then show ?thesis
      using 1(5) by (simp add: sample_loop.simps [of _ _ _ numSamples n s] report_all_def max_def)
  next
    case True
    have sq: "sequence_loop tbl fn ref n s 0 acc 0.0 0.0 =
      Inr (sums_upto tbl fn n s, sum_list (errors_at tbl fn ref n s),
        foldl (\<lambda>m e. MAX_macro e m) 0 (errors_at tbl fn ref n s))"
      using sequence_loop_sums_upto [of s n tbl fn ref] True 1(2-) by simp
    have up: "[s..numSamples - 1] = s # [s + 1..numSamples - 1]"
      using True by (simp add: upto_rec1)
    have mx: "max (s + 1) numSamples = max s numSamples"
      using True by simp
    from "1.IH" [OF True sq refl refl refl refl] 1(2-) True
    have "sample_loop tbl fn ref numSamples n (s + 1) (sums_upto tbl fn n s)
        (report s (divide_by_int (sum_list (errors_at tbl fn ref n s)) n) out)
        (hist @ [(s + 1, divide_by_int (sum_list (errors_at tbl fn ref n s)) n,
           foldl (\<lambda>m e. MAX_macro e m) 0 (errors_at tbl fn ref n s))]) =
      Inr (sums_upto tbl fn n (max (s + 1) numSamples - 1),
        report_all (report s (divide_by_int (sum_list (errors_at tbl fn ref n s)) n) out)
          (map (raw_entry tbl fn ref n) [s + 1..numSamples - 1]),
        (hist @ [(s + 1, divide_by_int (sum_list (errors_at tbl fn ref n s)) n,
           foldl (\<lambda>m e. MAX_macro e m) 0 (errors_at tbl fn ref n s))]) @
          map (raw_entry tbl fn ref n) [s + 1..numSamples - 1])"
      by simp
    then show ?thesis
      using True sq
      by (simp add: sample_loop.simps [of _ _ _ numSamples n s] Let_def up mx report_all_def
          raw_entry_def [of tbl fn ref n s])
  qed
qed

lemma sums_upto_start: "sums_upto tbl fn n (- 1) = replicate (nat n) 0"
  by (simp add: sums_upto_def running_sum_def map_replicate_const)

lemma estimator_result:
  assumes "numSamples \<le> MAXSAMPLES" "n \<le> MAXTABLES"
  shows "estimator tbl fn ref numSamples n out =
    Inr (sums_upto tbl fn n (max 0 numSamples - 1),
      report_all out (map (raw_entry tbl fn ref n) [0..numSamples - 1]),
      map (raw_entry tbl fn ref n) [0..numSamples - 1])"
  using sample_loop_result [of 0 numSamples n "replicate (nat n) 0" tbl fn ref out "[]"] assms
  by (simp add: estimator_def sums_upto_start)

lemma foldl_MAX_macro: "foldl (\<lambda>m e. MAX_macro e m) m xs = Max (set (m # xs))"
proof (induction xs arbitrary: m)
  case Nil
  then show ?case by simp
next
  case (Cons x xs)
  have "MAX_macro x m = max x m"
    by (simp add: MAX_macro_def max_def)
  then show ?case
    using Cons [of "max x m"] by (cases "xs = []") (simp_all add: max.assoc max.commute max.left_commute)
qed

lemma foldl_MAX_macro_nonneg:
  assumes "xs \<noteq> []" "\<forall>x \<in> set xs. 0 \<le> x"
  shows "foldl (\<lambda>m e. MAX_macro e m) 0 xs = Max (set xs)"
proof -
  have "Max (set xs) \<in> set xs"
    using assms(1) by (intro Max_in) simp_all
  then have "0 \<le> Max (set xs)"
    using assms(2) by blast
  then show ?thesis
    using assms(1) by (simp add: foldl_MAX_macro max_def)
qed

lemma errors_at_nonneg: "\<forall>x \<in> set (errors_at tbl fn ref n s). 0 \<le> x"
  by (auto simp: errors_at_def error_at_def)

lemma length_errors_at: "length (errors_at tbl fn ref n s) = nat n"
  by (simp add: errors_at_def)

lemma raw_entry_positive:
  assumes "0 < n"
  shows "raw_entry tbl fn ref n s =
    (s + 1, Finite (mean (errors_at tbl fn ref n s)), Max (set (errors_at tbl fn ref n s)))"
proof -
  have ne: "errors_at tbl fn ref n s \<noteq> []"
    using assms length_errors_at [of tbl fn ref n s] by auto
  have "real (nat n) = of_int n"
    using assms by simp
  then have "divide_by_int (sum_list (errors_at tbl fn ref n s)) n =
      Finite (mean (errors_at tbl fn ref n s))"
    using assms by (simp add: divide_by_int_def mean_def length_errors_at)
  then show ?thesis
    by (simp add: raw_entry_def foldl_MAX_macro_nonneg [OF ne errors_at_nonneg])
qed





subsection \<open>Evaluating the library models on given inputs\<close>

lemma skipLine_Cons:
  "skipLine c0 (ch # rest) = (if ch = newline then Some rest else skipLine ch rest)"
  by (simp add: skipLine_def skipLine_loop.simps [of c0] fscanf_c_def Let_def)

lemma skipLine_Nil: "skipLine c0 [] = (if c0 = newline then Some [] else None)"
  by (simp add: skipLine_def skipLine_loop_eof skipLine_loop_None)

lemma skipLines_numeral:
  "skipLines (numeral k) c0 fd =
    (case skipLine c0 fd of None \<Rightarrow> None | Some fd' \<Rightarrow> skipLines (pred_numeral k) c0 fd')"
  by (simp only: numeral_eq_Suc skipLines.simps)

lemma fixed_digits_numeral:
  "fixed_digits (numeral k) n = fixed_digits (pred_numeral k) (n div 10) @ [digit_char (n mod 10)]"
  by (subst numeral_eq_Suc) (simp only: fixed_digits.simps)

lemma decimal_numeral:
  "decimal (numeral k) =
    (if numeral k < (10::nat) then [digit_char (numeral k)]
     else decimal (numeral k div 10) @ [digit_char (numeral k mod 10)])"
  by (rule decimal.simps)

lemma decimal_0: "decimal 0 = ''0''"
  by (simp add: decimal.simps digit_char_def)

lemma decimal_1: "decimal (Suc 0) = ''1''"
  by (simp add: decimal.simps digit_char_def)

lemmas printf_eval = printf_i_def printf_f_def round_half_even_def Let_def decimal_numeral
  decimal_0 decimal_1 fixed_digits_numeral digit_char_def


lemmas reader_eval = read_tables.simps read_samples.simps fscanf_lf_lf_def scan_decimal_def
  isspace_def isdigit_def Let_def digits_value_def digit_value_def newline_def in_bounds_def
  MAXTABLES_def MAXSAMPLES_def skipLine_Cons skipLine_Nil skipLines_numeral

lemma quarterdisk_corners:
  "quarterdisk 0 0 = 1" "quarterdisk 1 0 = 0" "quarterdisk 0 1 = 0" "quarterdisk 1 1 = 0"
  by (simp_all add: quarterdisk_def M_PI_def)

section \<open>The claims\<close>

subsection \<open>C1: what the estimator computes\<close>

text \<open>
  C1. For every table of sample points that fits the array and holds at least one
  sequence, the estimator ends without leaving the array, and at each sample index \<open>s\<close>
  from 0 to \<open>numSamples - 1\<close> it has, for every sequence \<open>t\<close> in
  0..\<open>numSequences - 1\<close>, evaluated the function at \<open>samplePoints t s\<close> and added the
  value to the running sum of that sequence, taken the estimate as the running sum over
  \<open>s + 1\<close> and the error as the distance of the estimate to the reference value; the
  \<open>aveerror\<close> of that round is the mean of these \<open>numSequences\<close> errors and the
  \<open>maxerror\<close> is their maximum. The running sums at the end are those after the last
  sample, and the output is the report of these rounds.
\<close>

theorem estimator_computes_errors:
  assumes "numSamples \<le> MAXSAMPLES" "0 < numSequences" "numSequences \<le> MAXTABLES"
  shows "estimator samplePoints functionNumber reference numSamples numSequences out =
    Inr (map (\<lambda>t. running_sum samplePoints functionNumber t (max 0 numSamples - 1))
           [0..numSequences - 1],
         report_all out
           (map (\<lambda>s. (s + 1,
                  Finite (mean (errors_at samplePoints functionNumber reference numSequences s)),
                  Max (set (errors_at samplePoints functionNumber reference numSequences s))))
             [0..numSamples - 1]),
         map (\<lambda>s. (s + 1,
                Finite (mean (errors_at samplePoints functionNumber reference numSequences s)),
                Max (set (errors_at samplePoints functionNumber reference numSequences s))))
           [0..numSamples - 1])"
proof -
  have "raw_entry samplePoints functionNumber reference numSequences =
      (\<lambda>s. (s + 1,
         Finite (mean (errors_at samplePoints functionNumber reference numSequences s)),
         Max (set (errors_at samplePoints functionNumber reference numSequences s))))"
    using raw_entry_positive [OF assms(2)] by (intro ext) simp
  then show ?thesis
    using estimator_result [OF assms(1,3), of samplePoints functionNumber reference out]
    by (simp add: sums_upto_def)
qed

lemma corners_running_sum: "running_sum corners_table 0 0 3 = 1"
  by (simp add: running_sum_def dispatch_def corners_table_def quarterdisk_corners upto.simps)

lemma corners_errors:
  "errors_at corners_table 0 (1/2) 1 0 = [1/2]"
  "errors_at corners_table 0 (1/2) 1 1 = [0]"
  "errors_at corners_table 0 (1/2) 1 2 = [1/6]"
  "errors_at corners_table 0 (1/2) 1 3 = [1/4]"
  by (simp_all add: errors_at_def error_at_def estimate_at_def running_sum_def dispatch_def
      corners_table_def quarterdisk_corners upto.simps)

lemma corners_report:
  "report_all stdout_init
      [(1, Finite (1/2), 1/2), (2, Finite 0, 0), (3, Finite (1/6), 1/6), (4, Finite (1/4), 1/4)] =
    \<lparr>pending = [], written = ''4 0.250000'' @ [newline]\<rparr>"
  by (simp add: report_all_def report_def report_line_def printf_def fflush_def stdout_init_def
      printf_eval)

theorem estimator_computes_errors_witness:
  "4 \<le> MAXSAMPLES \<and> 0 < (1::int) \<and> 1 \<le> MAXTABLES \<and>
   estimator corners_table 0 (1/2) 4 1 stdout_init =
     Inr ([1], \<lparr>pending = [], written = ''4 0.250000'' @ [newline]\<rparr>,
       [(1, Finite (1/2), 1/2), (2, Finite 0, 0), (3, Finite (1/6), 1/6), (4, Finite (1/4), 1/4)])"
proof -
  have b: "(4::int) \<le> MAXSAMPLES" "(0::int) < 1" "1 \<le> MAXTABLES"
    by (simp_all add: MAXSAMPLES_def MAXTABLES_def)
  show ?thesis
    using estimator_computes_errors [OF b, of corners_table 0 "1/2" stdout_init] b
    by (simp add: corners_errors corners_running_sum mean_def corners_report upto.simps)
qed

subsection \<open>C7: the average error is not negative and not above the maximum\<close>









subsection \<open>The names of the table\<close>

lemma find_function_known:
  "find_function ''quarterdisk'' 0 = 0"
  "find_function ''fulldisk'' 0 = 1"
  "find_function ''triangle'' 0 = 2"
  "find_function ''quarterdiskramp'' 0 = 3"
  "find_function ''fulldiskramp'' 0 = 4"
  "find_function ''triangleramp'' 0 = 5"
  "find_function ''quartergaussian'' 0 = 6"
  "find_function ''fullgaussian'' 0 = 7"
  "find_function ''bilinear'' 0 = 8"
  "find_function ''biquadratic'' 0 = 9"
  "find_function ''sinxy'' 0 = 10"
  "find_function ''sininvr'' 0 = 11"
  "find_function ''stepx'' 0 = 12"
  "find_function ''rampx'' 0 = 13"
  "find_function ''lineary'' 0 = 14"
  "find_function ''gaussianx'' 0 = 15"
  "find_function ''siny'' 0 = 16"
  "find_function ''sin2x'' 0 = 17"
  by (simp_all add: find_function.simps functionTable_def NUMFUNCTIONS_def)

subsection \<open>C8: the centroid against the bilinear function\<close>

lemma bilinear_reference: "snd (functionTable ! 8) = 1 / 4"
  by (simp add: functionTable_def)

lemma sum_list_map_const:
  fixes c :: real
  shows "\<forall>x \<in> set xs. f x = c \<Longrightarrow> sum_list (map f xs) = real (length xs) * c"
  by (induction xs) (simp_all add: algebra_simps)

lemma centroid_running_sum:
  assumes "\<forall>k. 0 \<le> k \<and> k \<le> s \<longrightarrow> tbl t k = \<lparr>px = 0.5, py = 0.5\<rparr>" "- 1 \<le> s"
  shows "running_sum tbl 8 t s = of_int (s + 1) / 4"
proof -
  have "\<forall>k \<in> set [0..s]. dispatch 8 (tbl t k) = 1 / 4"
    using assms(1) by (simp add: dispatch_def bilinear_def)
  from sum_list_map_const [OF this] show ?thesis
    using assms(2) by (simp add: running_sum_def)
qed

lemma centroid_estimate:
  assumes "\<forall>k. 0 \<le> k \<and> k \<le> s \<longrightarrow> tbl t k = \<lparr>px = 0.5, py = 0.5\<rparr>" "0 \<le> s"
  shows "estimate_at tbl 8 t s = 1 / 4"
  using centroid_running_sum [where s = s and tbl = tbl and t = t] assms
  by (simp add: estimate_at_def)

lemma centroid_errors:
  assumes "\<forall>t s. 0 \<le> t \<and> t < n \<and> 0 \<le> s \<and> s < numSamples \<longrightarrow>
      tbl t s = \<lparr>px = 0.5, py = 0.5\<rparr>" "0 \<le> s" "s < numSamples"
  shows "errors_at tbl 8 (1 / 4) n s = replicate (nat n) 0"
proof -
  have "map (\<lambda>t. error_at tbl 8 (1 / 4) t s) [0..n - 1] = map (\<lambda>t. 0) [0..n - 1]"
  proof (intro map_cong refl)
    fix t assume "t \<in> set [0..n - 1]"
    then have "\<forall>k. 0 \<le> k \<and> k \<le> s \<longrightarrow> tbl t k = \<lparr>px = 0.5, py = 0.5\<rparr>"
      using assms by auto
    with centroid_estimate [where s = s and tbl = tbl and t = t] assms(2)
    show "error_at tbl 8 (1 / 4) t s = 0"
      by (simp add: error_at_def)
  qed
  then show ?thesis
    by (simp add: errors_at_def map_replicate_const)
qed

lemma centroid_entry:
  assumes "\<forall>t s. 0 \<le> t \<and> t < n \<and> 0 \<le> s \<and> s < numSamples \<longrightarrow>
      tbl t s = \<lparr>px = 0.5, py = 0.5\<rparr>" "0 \<le> s" "s < numSamples" "0 < n"
  shows "raw_entry tbl 8 (1 / 4) n s = (s + 1, Finite 0, 0)"
proof -
  have "set (replicate (nat n) (0::real)) = {0}"
    using assms(4) by auto
  then show ?thesis
    using assms(4)
    by (simp add: raw_entry_positive [OF assms(4)] centroid_errors [OF assms(1-3)] mean_def
        sum_list_replicate)
qed

text \<open>
  C8. Let every point of every sequence of the table (at least one sequence, inside the
  array) be the centroid (0.5, 0.5), and run the estimator with the function found under
  the name \<open>bilinear\<close> and its reference value from the table. Then the estimate of
  every sequence is 0.25 at every sample count and its error is 0, and every round of the
  estimator has \<open>aveerror\<close> = 0 (and \<open>maxerror\<close> = 0); so has every checkpoint that is
  reported.
\<close>

theorem centroid_bilinear:
  assumes "numSamples \<le> MAXSAMPLES" "0 < numSequences" "numSequences \<le> MAXTABLES"
    and "\<forall>t s. 0 \<le> t \<and> t < numSequences \<and> 0 \<le> s \<and> s < numSamples \<longrightarrow>
      samplePoints t s = \<lparr>px = 0.5, py = 0.5\<rparr>"
  shows "(\<forall>t s. 0 \<le> t \<and> t < numSequences \<and> 0 \<le> s \<and> s < numSamples \<longrightarrow>
       estimate_at samplePoints (find_function ''bilinear'' 0) t s = 0.25 \<and>
       error_at samplePoints (find_function ''bilinear'' 0)
         (snd (functionTable ! nat (find_function ''bilinear'' 0))) t s = 0) \<and>
    estimator samplePoints (find_function ''bilinear'' 0)
        (snd (functionTable ! nat (find_function ''bilinear'' 0))) numSamples numSequences out =
      Inr (map (\<lambda>t. 0.25 * of_int (max 0 numSamples)) [0..numSequences - 1],
           report_all out (map (\<lambda>s. (s + 1, Finite 0, 0)) [0..numSamples - 1]),
           map (\<lambda>s. (s + 1, Finite 0, 0)) [0..numSamples - 1])"
proof -
  have est: "estimate_at samplePoints 8 t s = 1 / 4"
    if "0 \<le> t" "t < numSequences" "0 \<le> s" "s < numSamples" for t s
  proof -
    have "\<forall>k. 0 \<le> k \<and> k \<le> s \<longrightarrow> samplePoints t k = \<lparr>px = 0.5, py = 0.5\<rparr>"
      using assms(4) that by auto
    with centroid_estimate [where s = s and tbl = samplePoints and t = t] that(3)
    show ?thesis by simp
  qed
  have entries: "map (raw_entry samplePoints 8 (1 / 4) numSequences) [0..numSamples - 1] =
      map (\<lambda>s. (s + 1, Finite 0, 0)) [0..numSamples - 1]"
    using assms(2,4) by (intro map_cong refl) (auto simp: centroid_entry)
  have sums: "sums_upto samplePoints 8 numSequences (max 0 numSamples - 1) =
      map (\<lambda>t. 0.25 * of_int (max 0 numSamples)) [0..numSequences - 1]"
    unfolding sums_upto_def
  proof (intro map_cong refl)
    fix t assume "t \<in> set [0..numSequences - 1]"
    then have "\<forall>k. 0 \<le> k \<and> k \<le> max 0 numSamples - 1 \<longrightarrow>
        samplePoints t k = \<lparr>px = 0.5, py = 0.5\<rparr>"
      using assms(4) by auto
    with centroid_running_sum [where s = "max 0 numSamples - 1" and tbl = samplePoints and t = t]
    show "running_sum samplePoints 8 t (max 0 numSamples - 1) = 0.25 * of_int (max 0 numSamples)"
      by simp
  qed
  show ?thesis
    using estimator_result [OF assms(1,3), of samplePoints 8 "1 / 4" out] est
    by (simp add: find_function_known bilinear_reference entries sums error_at_def)
qed

lemma centroid_report:
  "report_all stdout_init [(1, Finite 0, 0), (2, Finite 0, 0), (3, Finite 0, 0), (4, Finite 0, 0)] =
    \<lparr>pending = [], written = ''4 0.000000'' @ [newline]\<rparr>"
  by (simp add: report_all_def report_def report_line_def printf_def fflush_def stdout_init_def
      printf_eval)

theorem centroid_bilinear_witness:
  "4 \<le> MAXSAMPLES \<and> 0 < (2::int) \<and> 2 \<le> MAXTABLES \<and>
   estimate_at (\<lambda>t s. \<lparr>px = 0.5, py = 0.5\<rparr>) (find_function ''bilinear'' 0) 1 3 = 0.25 \<and>
   error_at (\<lambda>t s. \<lparr>px = 0.5, py = 0.5\<rparr>) (find_function ''bilinear'' 0)
     (snd (functionTable ! nat (find_function ''bilinear'' 0))) 1 3 = 0 \<and>
   estimator (\<lambda>t s. \<lparr>px = 0.5, py = 0.5\<rparr>) (find_function ''bilinear'' 0)
       (snd (functionTable ! nat (find_function ''bilinear'' 0))) 4 2 stdout_init =
     Inr ([1, 1], \<lparr>pending = [], written = ''4 0.000000'' @ [newline]\<rparr>,
       [(1, Finite 0, 0), (2, Finite 0, 0), (3, Finite 0, 0), (4, Finite 0, 0)])"
proof -
  have b: "(4::int) \<le> MAXSAMPLES" "(0::int) < 2" "2 \<le> MAXTABLES"
    by (simp_all add: MAXSAMPLES_def MAXTABLES_def)
  have c: "\<forall>t s. 0 \<le> t \<and> t < 2 \<and> 0 \<le> s \<and> s < 4 \<longrightarrow>
      (\<lambda>t s. \<lparr>px = 0.5, py = 0.5\<rparr>) (t::int) (s::int) = \<lparr>px = 0.5, py = 0.5\<rparr>"
    by simp
  from centroid_bilinear [OF b c, of stdout_init]
  have "(\<forall>t s. 0 \<le> t \<and> t < 2 \<and> 0 \<le> s \<and> s < 4 \<longrightarrow>
       estimate_at (\<lambda>t s. \<lparr>px = 0.5, py = 0.5\<rparr>) (find_function ''bilinear'' 0) t s = 0.25 \<and>
       error_at (\<lambda>t s. \<lparr>px = 0.5, py = 0.5\<rparr>) (find_function ''bilinear'' 0)
         (snd (functionTable ! nat (find_function ''bilinear'' 0))) t s = 0)"
    and e: "estimator (\<lambda>t s. \<lparr>px = 0.5, py = 0.5\<rparr>) (find_function ''bilinear'' 0)
        (snd (functionTable ! nat (find_function ''bilinear'' 0))) 4 2 stdout_init =
      Inr (map (\<lambda>t. 0.25 * of_int (max 0 4)) [0..2 - 1],
           report_all stdout_init (map (\<lambda>s. (s + 1, Finite 0, 0)) [0..4 - 1]),
           map (\<lambda>s. (s + 1, Finite 0, 0)) [0..4 - 1])"
    by blast+
  then have "estimate_at (\<lambda>t s. \<lparr>px = 0.5, py = 0.5\<rparr>) (find_function ''bilinear'' 0) 1 3 = 0.25 \<and>
       error_at (\<lambda>t s. \<lparr>px = 0.5, py = 0.5\<rparr>) (find_function ''bilinear'' 0)
         (snd (functionTable ! nat (find_function ''bilinear'' 0))) 1 3 = 0"
    by simp
  moreover have "map (\<lambda>s. (s + 1, Finite 0, 0::real)) [0..4 - 1] =
      [(1, Finite 0, 0), (2, Finite 0, 0), (3, Finite 0, 0), (4, Finite 0, 0)]"
    by (simp add: upto.simps)
  moreover have "map (\<lambda>t. 0.25 * of_int (max 0 4)) [0..2 - 1] = [1, 1::real]"
    by (simp add: upto.simps)
  ultimately show ?thesis
    using b e by (simp add: centroid_report)
qed

subsection \<open>C5: looking up the function name\<close>

lemma length_functionTable: "length functionTable = 18"
  by (simp add: functionTable_def)

lemma find_function_none:
  assumes "0 \<le> i" "i \<le> NUMFUNCTIONS"
    "\<forall>j. i \<le> j \<and> j < NUMFUNCTIONS \<longrightarrow> fst (functionTable ! nat j) \<noteq> functionName"
  shows "find_function functionName i = NUMFUNCTIONS"
  using assms
proof (induction functionName i rule: find_function.induct)
  case (1 functionName i)
  show ?case
  proof (cases "i < NUMFUNCTIONS")
    case True
    then have "fst (functionTable ! nat i) \<noteq> functionName"
      using 1(4) by simp
    moreover have "find_function functionName (i + 1) = NUMFUNCTIONS"
      using "1.IH" [OF True] 1(2-) True by auto
    ultimately show ?thesis
      using True by (simp add: find_function.simps [of functionName i])
  next
    case False
    then have "i = NUMFUNCTIONS"
      using 1(3) by simp
    with False show ?thesis
      by (subst find_function.simps) simp
  qed
qed

lemma find_function_unknown:
  assumes "functionName \<notin> set (map fst functionTable)"
  shows "find_function functionName 0 = NUMFUNCTIONS"
proof (rule find_function_none)
  show "\<forall>j. 0 \<le> j \<and> j < NUMFUNCTIONS \<longrightarrow> fst (functionTable ! nat j) \<noteq> functionName"
  proof (intro allI impI)
    fix j assume "0 \<le> j \<and> j < NUMFUNCTIONS"
    then have "nat j < length functionTable"
      by (auto simp: length_functionTable NUMFUNCTIONS_def)
    then have "fst (functionTable ! nat j) \<in> set (map fst functionTable)"
      by (metis length_map nth_map nth_mem)
    with assms show "fst (functionTable ! nat j) \<noteq> functionName"
      by auto
  qed
qed (simp_all add: NUMFUNCTIONS_def)

lemma find_function_all:
  "map (\<lambda>e. find_function (fst e) 0) functionTable = [0..17]"
  by (simp add: functionTable_def find_function_known upto.simps)

lemma find_function_entry:
  assumes "i < 18"
  shows "find_function (fst (functionTable ! i)) 0 = int i"
proof -
  have "map (\<lambda>e. find_function (fst e) 0) functionTable ! i = [0..17] ! i"
    by (simp only: find_function_all)
  then show ?thesis
    using assms by (simp add: length_functionTable)
qed

lemma catalog_names: "map fst catalog = map fst functionTable"
  by (simp add: catalog_def functionTable_def)

lemma catalog_dispatch:
  "map (\<lambda>i. dispatch i p) [0..17] = map (\<lambda>e. snd e (px p) (py p)) catalog"
  by (simp add: catalog_def dispatch_def upto.simps)

text \<open>
  C5. In a run with an accepted number of arguments (\<open>argc\<close> from 3 to 5): for every
  function name that is not among the 18 names of the table, the program prints the line
  \<^verbatim>\<open>Unknown function: '<name>'\<close>, which contains the name, and exits with status 1;
  nothing else is printed, so there is no table output. For every name in the table, at
  index \<open>i\<close>, the search ends with that index and the program goes on with function
  number \<open>i\<close> and the reference value of entry \<open>i\<close>; and function number \<open>i\<close> is
  evaluated by the function that the catalog lists under the same name.
\<close>

theorem function_lookup:
  "(3 \<le> length argv \<and> length argv \<le> 5 \<and> argv ! 1 \<notin> set (map fst functionTable) \<longrightarrow>
      main scan files c0 xy0 argv =
        Some (Inr (1, ''Unknown function: '' @ [CHR 0x27] @ argv ! 1 @ [CHR 0x27, newline]))) \<and>
   (3 \<le> length argv \<and> length argv \<le> 5 \<and> i < 18 \<and> argv ! 1 = fst (functionTable ! i) \<longrightarrow>
      main scan files c0 xy0 argv =
        main_run scan files c0 xy0 argv (int i) (snd (functionTable ! i))) \<and>
   map fst catalog = map fst functionTable \<and>
   map (\<lambda>i. dispatch i p) [0..17] = map (\<lambda>e. snd e (px p) (py p)) catalog"
proof (intro conjI impI)
  assume a: "3 \<le> length argv \<and> length argv \<le> 5 \<and> argv ! 1 \<notin> set (map fst functionTable)"
  then have "find_function (argv ! 1) 0 = NUMFUNCTIONS"
    by (simp add: find_function_unknown)
  with a show "main scan files c0 xy0 argv =
      Some (Inr (1, ''Unknown function: '' @ [CHR 0x27] @ argv ! 1 @ [CHR 0x27, newline]))"
    by (simp add: main_def Let_def unknown_function_text_def at_exit_def printf_def stdout_init_def)
next
  assume a: "3 \<le> length argv \<and> length argv \<le> 5 \<and> i < 18 \<and> argv ! 1 = fst (functionTable ! i)"
  then have "find_function (argv ! 1) 0 = int i"
    by (simp add: find_function_entry)
  with a show "main scan files c0 xy0 argv =
      main_run scan files c0 xy0 argv (int i) (snd (functionTable ! i))"
    by (simp add: main_def Let_def NUMFUNCTIONS_def)
qed (rule catalog_names catalog_dispatch)+

theorem function_lookup_witness:
  "main scan_decimal (\<lambda>name. None) newline (0, 0) [''funcsamp2D'', ''bogus'', ''samples.data''] =
     Some (Inr (1, ''Unknown function: '' @ [CHR 0x27] @ ''bogus'' @ [CHR 0x27, newline])) \<and>
   main scan_decimal (\<lambda>name. None) newline (0, 0) [''funcsamp2D'', ''bilinear'', ''samples.data''] =
     main_run scan_decimal (\<lambda>name. None) newline (0, 0)
       [''funcsamp2D'', ''bilinear'', ''samples.data''] 8 (1 / 4) \<and>
   main_run scan_decimal (\<lambda>name. None) newline (0, 0)
       [''funcsamp2D'', ''bilinear'', ''samples.data''] 8 (1 / 4) =
     Some (Inr (1, ''cannot open file '' @ [CHR 0x27] @ ''samples.data'' @ [CHR 0x27, newline]))"
proof -
  have "main_run scan_decimal (\<lambda>name. None) newline (0, 0)
       [''funcsamp2D'', ''bilinear'', ''samples.data''] 8 (1 / 4) =
     Some (Inr (1, ''cannot open file '' @ [CHR 0x27] @ ''samples.data'' @ [CHR 0x27, newline]))"
    by (simp add: main_run_def cannot_open_text_def at_exit_def printf_def stdout_init_def)
  then show ?thesis
    using function_lookup [of "[''funcsamp2D'', ''bogus'', ''samples.data'']"
        scan_decimal "\<lambda>name. None" newline "(0, 0)"]
      function_lookup [of "[''funcsamp2D'', ''bilinear'', ''samples.data'']"
        scan_decimal "\<lambda>name. None" newline "(0, 0)" 8]
    by (simp add: functionTable_def)
qed

subsection \<open>C6: the coordinate that each one-dimensional function reads\<close>

text \<open>
  C6. For a sample point \<open>(a, b)\<close> inside the array, each function of one variable is
  evaluated from one coordinate only, whatever the other is: the functions found under
  the names \<open>stepx\<close>, \<open>rampx\<close>, \<open>gaussianx\<close> and \<open>sin2x\<close> are \<open>step\<close>, \<open>ramp\<close>,
  \<open>gaussian1D\<close> and \<open>sin2x\<close> of the x coordinate \<open>a\<close>, and those found under \<open>lineary\<close>
  and \<open>siny\<close> are \<open>linear\<close> and \<open>sinx\<close> of the y coordinate \<open>b\<close>.
\<close>

theorem one_dimensional_axes:
  assumes "in_bounds t s" "samplePoints t s = \<lparr>px = a, py = b\<rparr>"
  shows "evaluateFunction samplePoints (find_function ''stepx'' 0) t s = Inr (step a) \<and>
    evaluateFunction samplePoints (find_function ''rampx'' 0) t s = Inr (ramp a) \<and>
    evaluateFunction samplePoints (find_function ''gaussianx'' 0) t s = Inr (gaussian1D a) \<and>
    evaluateFunction samplePoints (find_function ''sin2x'' 0) t s = Inr (sin2x a) \<and>
    evaluateFunction samplePoints (find_function ''lineary'' 0) t s = Inr (linear_fn b) \<and>
    evaluateFunction samplePoints (find_function ''siny'' 0) t s = Inr (sinx b)"
  using assms by (simp add: evaluateFunction_def dispatch_def find_function_known)

theorem one_dimensional_axes_witness:
  "in_bounds 0 1 \<and> corners_table 0 1 = \<lparr>px = 1, py = 0\<rparr> \<and>
   evaluateFunction corners_table (find_function ''stepx'' 0) 0 1 = Inr (step 1) \<and>
   evaluateFunction corners_table (find_function ''rampx'' 0) 0 1 = Inr (ramp 1) \<and>
   evaluateFunction corners_table (find_function ''gaussianx'' 0) 0 1 = Inr (gaussian1D 1) \<and>
   evaluateFunction corners_table (find_function ''sin2x'' 0) 0 1 = Inr (sin2x 1) \<and>
   evaluateFunction corners_table (find_function ''lineary'' 0) 0 1 = Inr (linear_fn 0) \<and>
   evaluateFunction corners_table (find_function ''siny'' 0) 0 1 = Inr (sinx 0)"
proof -
  have b: "in_bounds 0 1"
    by (simp add: in_bounds_def MAXTABLES_def MAXSAMPLES_def)
  have p: "corners_table 0 1 = \<lparr>px = 1, py = 0\<rparr>"
    by (simp add: corners_table_def)
  show ?thesis
    using one_dimensional_axes [of 0 1 corners_table 1 0] b p by simp
qed

subsection \<open>C9: the four corners against the quarter disk\<close>

lemma atoi_small: "atoi ''4'' = 4" "atoi ''1'' = 1" "atoi ''0'' = 0" "atoi ''10'' = 10"
  by (simp_all add: atoi_def isspace_def isdigit_def digits_value_def digit_value_def)

lemma corners_skip:
  "skipLines 3 c0 corners_file = Some corners_data"
  by (simp add: corners_file_def skipLine_Cons newline_def skipLines_numeral)

lemma corners_read:
  "read_tables scan_decimal c0 4 1 0 xy0 corners_data zero_table = Some (Inr corners_table)"
  by (simp add: reader_eval corners_table_def corners_data_def)

lemma corners_estimator:
  "estimator corners_table 0 (1/2) 4 1 stdout_init =
     Inr ([1], \<lparr>pending = [], written = ''4 0.250000'' @ [newline]\<rparr>,
       [(1, Finite (1/2), 1/2), (2, Finite 0, 0), (3, Finite (1/6), 1/6), (4, Finite (1/4), 1/4)])"
proof -
  have b: "(4::int) \<le> MAXSAMPLES" "(0::int) < 1" "1 \<le> MAXTABLES"
    by (simp_all add: MAXSAMPLES_def MAXTABLES_def)
  have "map (raw_entry corners_table 0 (1/2) 1) [0..4 - 1] =
      [(1, Finite (1/2), 1/2), (2, Finite 0, 0), (3, Finite (1/6), 1/6), (4, Finite (1/4), 1/4)]"
    by (simp add: raw_entry_positive [OF b(2)] corners_errors mean_def upto.simps)
  moreover have "sums_upto corners_table 0 1 (max 0 4 - 1) = [1]"
    by (simp add: sums_upto_def corners_running_sum upto.simps)
  ultimately show ?thesis
    using estimator_result [OF b(1,3), of corners_table 0 "1/2" stdout_init]
    by (simp add: corners_report)
qed

text \<open>
  C9. With \<open>numSamples = 4\<close>, \<open>numSequences = 1\<close> and the four corners (0,0), (1,0),
  (0,1), (1,1) as the sequence, the function \<open>quarterdisk\<close> is 1 at (0,0) only, the
  running estimate after the 4 samples is 0.25 and its error against the reference 0.5
  is 0.25; the program, run on a file with these four points, ends with status 0 and
  prints the single line \<^verbatim>\<open>4 0.250000\<close>, whatever its uninitialised variables hold.
\<close>

theorem quarterdisk_corners_run:
  "quarterdisk 0 0 = 1 \<and> quarterdisk 1 0 = 0 \<and> quarterdisk 0 1 = 0 \<and> quarterdisk 1 1 = 0 \<and>
   estimate_at corners_table (find_function ''quarterdisk'' 0) 0 3 = 0.25 \<and>
   error_at corners_table (find_function ''quarterdisk'' 0) 0.5 0 3 = 0.25 \<and>
   main scan_decimal corners_files c0 xy0
       [''funcsamp2D'', ''quarterdisk'', ''corners.data'', ''4'', ''1''] =
     Some (Inr (0, ''4 0.250000'' @ [newline]))"
proof -
  have "estimate_at corners_table 0 0 3 = 0.25"
    by (simp add: estimate_at_def corners_running_sum)
  moreover from this have "error_at corners_table 0 0.5 0 3 = 0.25"
    by (simp add: error_at_def)
  moreover have "main scan_decimal corners_files c0 xy0
       [''funcsamp2D'', ''quarterdisk'', ''corners.data'', ''4'', ''1''] =
     Some (Inr (0, ''4 0.250000'' @ [newline]))"
    by (simp add: main_def main_run_def Let_def find_function_known NUMFUNCTIONS_def
        functionTable_def corners_files_def atoi_small corners_skip corners_read
        corners_estimator at_exit_def)
  ultimately show ?thesis
    by (simp add: quarterdisk_corners find_function_known)
qed

subsection \<open>C2: the lines of the report\<close>














subsection \<open>C10: the capacity of the sample table\<close>











subsection \<open>C4: the end of the reader\<close>

lemma header_skip: "skipLines 3 c0 (header @ rest) = Some rest"
  by (simp add: header_def skipLine_Cons newline_def skipLines_numeral)

lemma short_read:
  "read_samples scan_decimal 4 0 0 xy0 short_data zero_table = Inr ((1, 1), [], short_table)"
  by (simp add: reader_eval short_table_def short_data_def)

lemma short_read_tables:
  "read_tables scan_decimal c0 4 1 0 xy0 short_data zero_table =
    (if c0 = newline then Some (Inr short_table) else None)"
  by (simp add: read_tables.simps short_read skipLines_numeral skipLine_Nil)

lemma unfinished_read:
  "read_samples scan_decimal 4 0 0 xy0 unfinished_data zero_table =
    Inr ((1, 1), ''// end'',
      zero_table(0 := (zero_table 0) (0 := \<lparr>px = 1, py = 1\<rparr>, 1 := \<lparr>px = 1, py = 1\<rparr>,
        2 := \<lparr>px = 1, py = 1\<rparr>, 3 := \<lparr>px = 1, py = 1\<rparr>)))"
  by (simp add: reader_eval unfinished_data_def)

lemma unfinished_read_tables:
  "read_tables scan_decimal c0 4 1 0 xy0 unfinished_data zero_table = None"
  by (simp add: read_tables.simps unfinished_read skipLines_numeral skipLine_Cons skipLine_Nil
      newline_def)

text \<open>
  C4 fails on the code. The sequence of the first file has two points where four are
  asked for, and its last line is a comment without a newline: the reader stores the
  stale pair in the remaining slots and then \<open>skipLine\<close> reads the comment up to the end
  of the file and keeps testing its last character for ever, whatever the uninitialised
  variables hold. The second file ends after the second point: the reader leaves the
  loop of the sequence, and \<open>skipLine\<close>, at the end of the file from the start, tests
  its uninitialised \<open>c\<close> for ever unless that happens to be a newline. In both runs
  \<^verbatim>\<open>main\<close> does not return.
\<close>

theorem reader_does_not_end:
  "main scan_decimal unfinished_files c0 xy0
       [''funcsamp2D'', ''quarterdisk'', ''unfinished.data'', ''4'', ''1''] = None \<and>
   main scan_decimal short_files (CHR ''x'') xy0
       [''funcsamp2D'', ''quarterdisk'', ''short.data'', ''4'', ''1''] = None"
  by (simp add: main_def main_run_def Let_def find_function_known NUMFUNCTIONS_def
      unfinished_files_def short_files_def atoi_small header_skip short_read_tables
      unfinished_read_tables newline_def)

subsection \<open>C3: a sequence with fewer points than asked for\<close>










end
